theory Spec2Isabelle
  imports Main "HOL-Library.Word" "HOL-Library.AList"
begin

section \<open>Message taxonomy (message.py)\<close>

text \<open>
  Python raises exceptions; here every raise is the left summand of a result.
  The driver itself only ever raises the plain \<open>Exception\<close> with a message; the
  other constructors are the exceptions that the interpreter or the
  \<open>enum\<close> module raise on the paths modelled below.
\<close>

datatype error =
    Exception string
  | ValueError string
  | AssertionError
  | AttributeError string string
  | TypeError string

type_synonym byte = "8 word"

datatype SchedulerWeekday =
    SUNDAY | MONDAY | TUESDAY | WEDNESDAY | THURSDAY | FRIDAY | SATURDAY

record Scheduler =
  is_active :: bool
  is_action_turn_on :: bool
  repeat_on_weekdays :: "SchedulerWeekday list"
  year :: int
  month :: int
  day :: int
  hour :: int
  minute :: int

record SchedulerEntry =
  slot_id :: int
  scheduler :: Scheduler

text \<open>
  The values a caller can hand to the driver: command-line strings, the
  literals \<open>True\<close>/\<open>False\<close>, integers, enum members, \<open>None\<close>.
\<close>

datatype pyval =
    PyNone
  | PyBool bool
  | PyInt int
  | PyStr string
  | PyWeekday SchedulerWeekday

datatype command =
    AuthorizeCommand string
  | ChangePinCommand string string
  | ResetPinCommand
  | PowerSwitchCommand bool
  | LEDSwitchCommand bool
  | SynchronizeDateAndTimeCommand int int int int int int
  | RequestSettingsCommand
  | SetPowerLimitCommand int
  | SetPricesCommand int int
  | SetReducedPeriodCommand bool int int
  | RequestTimerStatusCommand
  | SetTimerCommand bool bool int int int int int int
  | RequestSchedulerCommand int
  | AddSchedulerCommand Scheduler
  | EditSchedulerCommand int Scheduler
  | RemoveSchedulerCommand int

text \<open>
  A notification is a Python object: its class and the attributes that the
  class's \<open>__init__\<close> stored in the instance, by name. Attribute access by
  name is what the driver does, so the names are kept.
\<close>

datatype notification_class =
    AuthorizationNotification
  | ChangePinNotification
  | ResetPinNotification
  | PowerSwitchNotification
  | LEDSwitchNotification
  | SynchronizeDateAndTimeNotification
  | RequestedSettingsNotification
  | PowerLimitSetNotification
  | PricesSetNotification
  | ReducedPeriodSetNotification
  | RequestedTimerStatusNotification
  | TimerSetNotification
  | SchedulerRequestedNotification
  | SchedulerSetNotification
  | OtherClass

datatype attr_value =
    ABool bool
  | AInt int
  | AEntries "SchedulerEntry list"

record notification =
  cls :: notification_class
  attrs :: "(string \<times> attr_value) list"

definition class_name :: "notification_class \<Rightarrow> string" where
  "class_name c = (case c of
      AuthorizationNotification \<Rightarrow> ''AuthorizationNotification''
    | ChangePinNotification \<Rightarrow> ''ChangePinNotification''
    | ResetPinNotification \<Rightarrow> ''ResetPinNotification''
    | PowerSwitchNotification \<Rightarrow> ''PowerSwitchNotification''
    | LEDSwitchNotification \<Rightarrow> ''LEDSwitchNotification''
    | SynchronizeDateAndTimeNotification \<Rightarrow> ''SynchronizeDateAndTimeNotification''
    | RequestedSettingsNotification \<Rightarrow> ''RequestedSettingsNotification''
    | PowerLimitSetNotification \<Rightarrow> ''PowerLimitSetNotification''
    | PricesSetNotification \<Rightarrow> ''PricesSetNotification''
    | ReducedPeriodSetNotification \<Rightarrow> ''ReducedPeriodSetNotification''
    | RequestedTimerStatusNotification \<Rightarrow> ''RequestedTimerStatusNotification''
    | TimerSetNotification \<Rightarrow> ''TimerSetNotification''
    | SchedulerRequestedNotification \<Rightarrow> ''SchedulerRequestedNotification''
    | SchedulerSetNotification \<Rightarrow> ''SchedulerSetNotification''
    | OtherClass \<Rightarrow> ''object'')"

text \<open>\<open>AbstractCommandConfirmationNotification.__init__\<close>, inherited by every
  confirmation class: one attribute, \<open>was_successful\<close>.\<close>

definition confirmation :: "notification_class \<Rightarrow> bool \<Rightarrow> notification" where
  "confirmation c was_successful =
     \<lparr> cls = c, attrs = [(''was_successful'', ABool was_successful)] \<rparr>"

text \<open>\<open>SchedulerRequestedNotification.__init__\<close>: the two attributes it stores are
  \<open>number_of_schedulers\<close> and \<open>scheduler_entries\<close>.\<close>

definition scheduler_requested :: "int \<Rightarrow> SchedulerEntry list \<Rightarrow> notification" where
  "scheduler_requested number_of_schedulers scheduler_entries =
     \<lparr> cls = SchedulerRequestedNotification,
       attrs = [(''number_of_schedulers'', AInt number_of_schedulers),
                (''scheduler_entries'', AEntries scheduler_entries)] \<rparr>"

text \<open>\<open>RequestedSettingsNotification.__init__\<close>; the chained assignment on its
  third line also stores an attribute called \<open>self\<close>.\<close>

definition requested_settings ::
  "bool \<Rightarrow> int \<Rightarrow> int \<Rightarrow> int \<Rightarrow> int \<Rightarrow> bool \<Rightarrow> int \<Rightarrow> notification" where
  "requested_settings is_reduced_mode_active normal_price_in_cent reduced_price_in_cent
       reduced_mode_start_time_in_minutes reduced_mode_end_time_in_minutes
       is_led_active power_limit_in_watt =
     \<lparr> cls = RequestedSettingsNotification,
       attrs = [(''is_reduced_mode_active'', ABool is_reduced_mode_active),
                (''normal_price_in_cent'', AInt normal_price_in_cent),
                (''reduced_price_in_cent'', AInt reduced_price_in_cent),
                (''self'', AInt reduced_price_in_cent),
                (''reduced_mode_start_time_in_minutes'', AInt reduced_mode_start_time_in_minutes),
                (''reduced_mode_end_time_in_minutes'', AInt reduced_mode_end_time_in_minutes),
                (''is_led_active'', ABool is_led_active),
                (''power_limit_in_watt'', AInt power_limit_in_watt)] \<rparr>"

text \<open>\<open>isinstance(n, C)\<close> for a concrete class \<open>C\<close> of message.py, none of which
  has a subclass.\<close>

definition isinstance :: "notification \<Rightarrow> notification_class \<Rightarrow> bool" where
  "isinstance n c = (cls n = c)"

text \<open>Reading \<open>n.name\<close>: the instance dictionary, else \<open>AttributeError\<close>.\<close>

definition getattr :: "notification \<Rightarrow> string \<Rightarrow> error + attr_value" where
  "getattr n name = (case map_of (attrs n) name of
      None \<Rightarrow> Inl (AttributeError (class_name (cls n)) name)
    | Some v \<Rightarrow> Inr v)"

text \<open>Python truth value, as tested by \<open>not x\<close>.\<close>

fun truthy :: "attr_value \<Rightarrow> bool" where
  "truthy (ABool b) = b"
| "truthy (AInt i) = (i \<noteq> 0)"
| "truthy (AEntries es) = (es \<noteq> [])"

section \<open>The notification delegate (sem6000.py, SEM6000Delegate)\<close>

text \<open>
  The delegate owns the list of raw fragments. Its parser is an object of the
  module \<open>parser\<close>, which is outside this development: it is the parameter
  \<open>parse\<close> of the environment below. The debug output to standard error has no
  effect on any result and is left out.
\<close>

record SEM6000Delegate =
  raw_notifications :: "byte list list"

definition handleNotification :: "byte list \<Rightarrow> SEM6000Delegate \<Rightarrow> SEM6000Delegate" where
  "handleNotification data d = d\<lparr> raw_notifications := raw_notifications d @ [data] \<rparr>"

text \<open>The slice \<open>b[-2:]\<close>: the last two bytes, or all of \<open>b\<close> when it is shorter.\<close>

definition last_two :: "byte list \<Rightarrow> byte list" where
  "last_two b = drop (length b - 2) b"

definition has_final_raw_notification :: "SEM6000Delegate \<Rightarrow> bool" where
  "has_final_raw_notification d =
     (if length (raw_notifications d) = 0 then False
      else let last_notification = last (raw_notifications d) in
        if length last_notification < 2 then False
        else last_two last_notification = [0xFF, 0xFF])"


text \<open>
  What the driver calls and this development does not contain: the codec modules
  \<open>encoder\<close> and \<open>parser\<close>, and the builtins and \<open>datetime\<close> functions of
  the Python library. They are parameters; each may raise.
\<close>

record datetime =
  dt_year :: int
  dt_month :: int
  dt_day :: int
  dt_hour :: int
  dt_minute :: int
  dt_second :: int

record env =
  encode :: "command \<Rightarrow> error + byte list"
  parse :: "byte list \<Rightarrow> error + notification"
  py_int :: "pyval \<Rightarrow> error + int"
  time_fromisoformat :: "string \<Rightarrow> error + (int \<times> int \<times> int)"
  now_plus :: "int \<Rightarrow> int \<Rightarrow> int \<Rightarrow> error + datetime"
  datetime_new :: "int \<Rightarrow> int \<Rightarrow> int \<Rightarrow> int \<Rightarrow> int \<Rightarrow> int \<Rightarrow> error + datetime"

text \<open>
  \<open>py_int\<close> is \<open>int(x)\<close>; \<open>time_fromisoformat\<close> is \<open>datetime.time.fromisoformat\<close>,
  giving hour, minute and second; \<open>now_plus h m s\<close> is
  \<open>datetime.datetime.now() + datetime.timedelta(hours=h, minutes=m, seconds=s)\<close>;
  \<open>datetime_new\<close> is the constructor \<open>datetime.datetime(year, month, day, hour,
  minute, second)\<close>.
\<close>

text \<open>
  \<open>consume_notification\<close>: the fragments are concatenated first; the raise for
  an incomplete buffer and a raise of the parser both leave through the
  \<open>except\<close> clause, which re-raises; the \<open>while\<close> loop that pops every
  fragment is reached only after the parser returned.
\<close>

definition consume_notification ::
  "env \<Rightarrow> SEM6000Delegate \<Rightarrow> (error + notification) \<times> SEM6000Delegate" where
  "consume_notification ev d =
     (let data = concat (raw_notifications d) in
      if \<not> has_final_raw_notification d
      then (Inl (Exception ''Incomplete notification data''), d)
      else (case parse ev data of
              Inl e \<Rightarrow> (Inl e, d)
            | Inr notification \<Rightarrow> (Inr notification, d\<lparr> raw_notifications := [] \<rparr>)))"

section \<open>The driver (sem6000.py, SEM6000)\<close>

text \<open>
  The peripheral is the list of what \<open>waitForNotifications\<close> will still do, one
  element per call: \<open>Some data\<close> hands the fragment \<open>data\<close> to the delegate and
  returns true, \<open>None\<close> is a timeout and returns false. When the list is used
  up every further call times out. \<open>written\<close> records each write to the
  characteristic.
\<close>

record SEM6000 =
  pin :: string
  delegate :: SEM6000Delegate
  peripheral :: "byte list option list"
  written :: "byte list list"

fun wait_for_notifications ::
  "byte list option list \<Rightarrow> SEM6000Delegate \<Rightarrow> byte list option list \<times> SEM6000Delegate" where
  "wait_for_notifications [] d = ([], d)"
| "wait_for_notifications (None # evs) d = (evs, d)"
| "wait_for_notifications (Some data # evs) d =
     (let d' = handleNotification data d in
      if has_final_raw_notification d' then (evs, d')
      else wait_for_notifications evs d')"

definition send_command :: "env \<Rightarrow> command \<Rightarrow> SEM6000 \<Rightarrow> (error + unit) \<times> SEM6000" where
  "send_command ev cmd s =
     (case encode ev cmd of
        Inl e \<Rightarrow> (Inl e, s)
      | Inr encoded_command \<Rightarrow>
          (case wait_for_notifications (peripheral s) (delegate s) of
             (evs, d) \<Rightarrow>
               (Inr (), s\<lparr> delegate := d, peripheral := evs,
                           written := written s @ [encoded_command] \<rparr>)))"

text \<open>The call \<open>self._delegate.consume_notification()\<close> from the driver.\<close>

definition delegate_consume :: "env \<Rightarrow> SEM6000 \<Rightarrow> (error + notification) \<times> SEM6000" where
  "delegate_consume ev s =
     (case consume_notification ev (delegate s) of
        (r, d) \<Rightarrow> (r, s\<lparr> delegate := d \<rparr>))"

text \<open>The two statements every operation starts its exchange with:
  \<open>self._send_command(command)\<close>, then \<open>self._delegate.consume_notification()\<close>.\<close>

definition exchange :: "env \<Rightarrow> command \<Rightarrow> SEM6000 \<Rightarrow> (error + notification) \<times> SEM6000" where
  "exchange ev cmd s =
     (case send_command ev cmd s of
        (Inl e, s1) \<Rightarrow> (Inl e, s1)
      | (Inr u, s1) \<Rightarrow> delegate_consume ev s1)"

definition authorize :: "env \<Rightarrow> SEM6000 \<Rightarrow> (error + notification) \<times> SEM6000" where
  "authorize ev s =
     (case exchange ev (AuthorizeCommand (pin s)) s of
        (Inl e, s') \<Rightarrow> (Inl e, s')
      | (Inr notification, s') \<Rightarrow>
          if \<not> isinstance notification AuthorizationNotification
          then (Inl (Exception ''Authentication failed''), s')
          else (case getattr notification ''was_successful'' of
                  Inl e \<Rightarrow> (Inl e, s')
                | Inr v \<Rightarrow>
                    if \<not> truthy v then (Inl (Exception ''Authentication failed''), s')
                    else (Inr notification, s')))"

definition request_settings :: "env \<Rightarrow> SEM6000 \<Rightarrow> (error + notification) \<times> SEM6000" where
  "request_settings ev s =
     (case exchange ev RequestSettingsCommand s of
        (Inl e, s') \<Rightarrow> (Inl e, s')
      | (Inr notification, s') \<Rightarrow>
          if \<not> isinstance notification RequestedSettingsNotification
          then (Inl (Exception ''Request settings failed''), s')
          else (Inr notification, s'))"


subsection \<open>Interpreting a boolean argument\<close>

text \<open>
  \<open>str(x)\<close> for the values of \<open>pyval\<close>, and \<open>str.lower\<close>. Strings are
  sequences of ASCII characters here; \<open>lower\<close> leaves every other character as
  it is.
\<close>

definition digit_char :: "nat \<Rightarrow> char" where
  "digit_char k = char_of (48 + k)"

fun str_nat :: "nat \<Rightarrow> string" where
  "str_nat k = (if k < 10 then [digit_char k] else str_nat (k div 10) @ [digit_char (k mod 10)])"

declare str_nat.simps [simp del]

definition str_int :: "int \<Rightarrow> string" where
  "str_int i = (if i < 0 then CHR ''-'' # str_nat (nat (- i)) else str_nat (nat i))"

definition weekday_name :: "SchedulerWeekday \<Rightarrow> string" where
  "weekday_name m = (case m of
      SUNDAY \<Rightarrow> ''SUNDAY'' | MONDAY \<Rightarrow> ''MONDAY'' | TUESDAY \<Rightarrow> ''TUESDAY''
    | WEDNESDAY \<Rightarrow> ''WEDNESDAY'' | THURSDAY \<Rightarrow> ''THURSDAY'' | FRIDAY \<Rightarrow> ''FRIDAY''
    | SATURDAY \<Rightarrow> ''SATURDAY'')"

fun py_str :: "pyval \<Rightarrow> string" where
  "py_str PyNone = ''None''"
| "py_str (PyBool b) = (if b then ''True'' else ''False'')"
| "py_str (PyInt i) = str_int i"
| "py_str (PyStr s) = s"
| "py_str (PyWeekday m) = ''SchedulerWeekday.'' @ weekday_name m"

definition lower_char :: "char \<Rightarrow> char" where
  "lower_char c = (let k = (of_char c :: nat) in
                   if 65 \<le> k \<and> k \<le> 90 then char_of (k + 32) else c)"

definition lower :: "string \<Rightarrow> string" where
  "lower s = map lower_char s"

definition parse_boolean :: "pyval \<Rightarrow> bool" where
  "parse_boolean boolean_string =
     (let boolean_value = False;
          boolean_value = (if lower (py_str boolean_string) = ''true'' then True else boolean_value);
          boolean_value = (if lower (py_str boolean_string) = ''on'' then True else boolean_value);
          boolean_value = (if lower (py_str boolean_string) = ''1'' then True else boolean_value)
      in boolean_value)"

subsection \<open>Operations that check the class of the notification only\<close>

definition set_power_limit :: "env \<Rightarrow> pyval \<Rightarrow> SEM6000 \<Rightarrow> (error + notification) \<times> SEM6000" where
  "set_power_limit ev power_limit_in_watt s =
     (case py_int ev power_limit_in_watt of
        Inl e \<Rightarrow> (Inl e, s)
      | Inr w \<Rightarrow>
          (case exchange ev (SetPowerLimitCommand w) s of
             (Inl e, s') \<Rightarrow> (Inl e, s')
           | (Inr notification, s') \<Rightarrow>
               if \<not> isinstance notification PowerLimitSetNotification
               then (Inl (Exception ''Set power limit failed''), s')
               else (Inr notification, s')))"

definition set_prices ::
  "env \<Rightarrow> pyval \<Rightarrow> pyval \<Rightarrow> SEM6000 \<Rightarrow> (error + notification) \<times> SEM6000" where
  "set_prices ev normal_price_in_cent reduced_price_in_cent s =
     (case py_int ev normal_price_in_cent of
        Inl e \<Rightarrow> (Inl e, s)
      | Inr np \<Rightarrow>
          (case py_int ev reduced_price_in_cent of
             Inl e \<Rightarrow> (Inl e, s)
           | Inr rp \<Rightarrow>
               (case exchange ev (SetPricesCommand np rp) s of
                  (Inl e, s') \<Rightarrow> (Inl e, s')
                | (Inr notification, s') \<Rightarrow>
                    if \<not> isinstance notification PricesSetNotification
                    then (Inl (Exception ''Set prices failed''), s')
                    else (Inr notification, s'))))"

definition set_reduced_period ::
  "env \<Rightarrow> pyval \<Rightarrow> string \<Rightarrow> string \<Rightarrow> SEM6000 \<Rightarrow> (error + notification) \<times> SEM6000" where
  "set_reduced_period ev is_active_arg start_isotime end_isotime s =
     (case time_fromisoformat ev start_isotime of
        Inl e \<Rightarrow> (Inl e, s)
      | Inr (start_hour, start_minute, start_second) \<Rightarrow>
          (case time_fromisoformat ev end_isotime of
             Inl e \<Rightarrow> (Inl e, s)
           | Inr (end_hour, end_minute, end_second) \<Rightarrow>
               (let start_time_in_minutes = start_hour * 60 + start_minute;
                    end_time_in_minutes = end_hour * 60 + end_minute
                in case exchange ev (SetReducedPeriodCommand (parse_boolean is_active_arg)
                                       start_time_in_minutes end_time_in_minutes) s of
                  (Inl e, s') \<Rightarrow> (Inl e, s')
                | (Inr notification, s') \<Rightarrow>
                    if \<not> isinstance notification ReducedPeriodSetNotification
                    then (Inl (Exception ''Set reduced period failed''), s')
                    else (Inr notification, s'))))"

definition set_timer ::
  "env \<Rightarrow> pyval \<Rightarrow> pyval \<Rightarrow> string \<Rightarrow> SEM6000 \<Rightarrow> (error + notification) \<times> SEM6000" where
  "set_timer ev is_reset_timer is_action_turn_on_arg delay_isotime s =
     (case time_fromisoformat ev delay_isotime of
        Inl e \<Rightarrow> (Inl e, s)
      | Inr (h, m, sec) \<Rightarrow>
          (case now_plus ev h m sec of
             Inl e \<Rightarrow> (Inl e, s)
           | Inr dt0 \<Rightarrow>
               (case datetime_new ev (dt_year dt0 mod 100) (dt_month dt0) (dt_day dt0)
                                     (dt_hour dt0) (dt_minute dt0) (dt_second dt0) of
                  Inl e \<Rightarrow> (Inl e, s)
                | Inr dt \<Rightarrow>
                    (case exchange ev (SetTimerCommand (parse_boolean is_reset_timer)
                                         (parse_boolean is_action_turn_on_arg)
                                         (dt_second dt) (dt_minute dt) (dt_hour dt)
                                         (dt_day dt) (dt_month dt) (dt_year dt)) s of
                       (Inl e, s') \<Rightarrow> (Inl e, s')
                     | (Inr notification, s') \<Rightarrow>
                         if \<not> isinstance notification TimerSetNotification
                         then (Inl (Exception ''Set timer failed''), s')
                         else (Inr notification, s')))))"

subsection \<open>Retrieving the schedulers page by page\<close>

text \<open>\<open>x // 4\<close> on an attribute value; a \<open>bool\<close> is an \<open>int\<close> in Python, a list
  has no floor division.\<close>

definition floordiv4 :: "attr_value \<Rightarrow> error + int" where
  "floordiv4 v = (case v of
      AInt k \<Rightarrow> Inr (k div 4)
    | ABool b \<Rightarrow> Inr ((if b then 1 else 0) div 4)
    | AEntries es \<Rightarrow> Inl (TypeError ''unsupported operand type(s) for //''))"

text \<open>
  The statement \<open>notification.schedulers.extend(further_notification.schedulers)\<close>:
  the attribute \<open>schedulers\<close> of the first object is read, then its method
  \<open>extend\<close>, then the attribute \<open>schedulers\<close> of the second object; the list
  held by the first object grows in place.
\<close>

definition extend_schedulers :: "notification \<Rightarrow> notification \<Rightarrow> error + notification" where
  "extend_schedulers n further =
     (case getattr n ''schedulers'' of
        Inl e \<Rightarrow> Inl e
      | Inr (AEntries xs) \<Rightarrow>
          (case getattr further ''schedulers'' of
             Inl e \<Rightarrow> Inl e
           | Inr (AEntries ys) \<Rightarrow>
               Inr (n\<lparr> attrs := AList.update ''schedulers'' (AEntries (xs @ ys)) (attrs n) \<rparr>)
           | Inr other \<Rightarrow> Inl (TypeError ''object is not iterable''))
      | Inr other \<Rightarrow> Inl (AttributeError ''object'' ''extend''))"

text \<open>The \<open>for\<close> loop over \<open>range(1, max_page_number+1)\<close>, by recursion on the
  pages still to request.\<close>

fun request_further_pages ::
  "env \<Rightarrow> int list \<Rightarrow> notification \<Rightarrow> SEM6000 \<Rightarrow> (error + notification) \<times> SEM6000" where
  "request_further_pages ev [] notification s = (Inr notification, s)"
| "request_further_pages ev (page_number # pages) notification s =
     (case exchange ev (RequestSchedulerCommand page_number) s of
        (Inl e, s') \<Rightarrow> (Inl e, s')
      | (Inr further_notification, s') \<Rightarrow>
          if \<not> isinstance further_notification SchedulerRequestedNotification
          then (Inl (Exception ''Request scheduler 2nd page failed''), s')
          else (case extend_schedulers notification further_notification of
                  Inl e \<Rightarrow> (Inl e, s')
                | Inr notification' \<Rightarrow> request_further_pages ev pages notification' s'))"

definition request_scheduler :: "env \<Rightarrow> SEM6000 \<Rightarrow> (error + notification) \<times> SEM6000" where
  "request_scheduler ev s =
     (case exchange ev (RequestSchedulerCommand 0) s of
        (Inl e, s') \<Rightarrow> (Inl e, s')
      | (Inr notification, s') \<Rightarrow>
          if \<not> isinstance notification SchedulerRequestedNotification
          then (Inl (Exception ''Request scheduler 1st page failed''), s')
          else (case getattr notification ''number_of_schedulers'' of
                  Inl e \<Rightarrow> (Inl e, s')
                | Inr v \<Rightarrow>
                    (case floordiv4 v of
                       Inl e \<Rightarrow> (Inl e, s')
                     | Inr max_page_number \<Rightarrow>
                         request_further_pages ev [1..max_page_number] notification s')))"

section \<open>Constructing a Scheduler (message.py, Scheduler.__init__)\<close>

text \<open>The call \<open>SchedulerWeekday(value)\<close> of the enum: the member with that
  value, else \<open>ValueError\<close>.\<close>

definition SchedulerWeekday_call :: "int \<Rightarrow> error + SchedulerWeekday" where
  "SchedulerWeekday_call v =
     (if v = 0 then Inr SUNDAY
      else if v = 1 then Inr MONDAY
      else if v = 2 then Inr TUESDAY
      else if v = 3 then Inr WEDNESDAY
      else if v = 4 then Inr THURSDAY
      else if v = 5 then Inr FRIDAY
      else if v = 6 then Inr SATURDAY
      else Inl (ValueError (str_int v @ '' is not a valid SchedulerWeekday'')))"

text \<open>\<open>isinstance(x, int)\<close> holds of integers and of booleans; the result is the
  integer value then.\<close>

fun as_int :: "pyval \<Rightarrow> int option" where
  "as_int (PyInt i) = Some i"
| "as_int (PyBool b) = Some (if b then 1 else 0)"
| "as_int other = None"

text \<open>The first loop replaces every integer of the list by its enum member.\<close>

fun convert_weekdays :: "pyval list \<Rightarrow> error + pyval list" where
  "convert_weekdays [] = Inr []"
| "convert_weekdays (weekday # rest) =
     (case as_int weekday of
        None \<Rightarrow>
          (case convert_weekdays rest of Inl e \<Rightarrow> Inl e | Inr ws \<Rightarrow> Inr (weekday # ws))
      | Some v \<Rightarrow>
          (case SchedulerWeekday_call v of
             Inl e \<Rightarrow> Inl e
           | Inr m \<Rightarrow>
               (case convert_weekdays rest of
                  Inl e \<Rightarrow> Inl e
                | Inr ws \<Rightarrow> Inr (PyWeekday m # ws))))"

text \<open>The second loop asserts that every element is an enum member.\<close>

fun assert_weekdays :: "pyval list \<Rightarrow> error + SchedulerWeekday list" where
  "assert_weekdays [] = Inr []"
| "assert_weekdays (PyWeekday m # rest) =
     (case assert_weekdays rest of Inl e \<Rightarrow> Inl e | Inr ms \<Rightarrow> Inr (m # ms))"
| "assert_weekdays (other # rest) = Inl AssertionError"

definition Scheduler_init ::
  "bool \<Rightarrow> bool \<Rightarrow> pyval list \<Rightarrow> int \<Rightarrow> int \<Rightarrow> int \<Rightarrow> int \<Rightarrow> int \<Rightarrow> error + Scheduler" where
  "Scheduler_init active turn_on weekdays y mo d h mi =
     (case convert_weekdays weekdays of
        Inl e \<Rightarrow> Inl e
      | Inr converted \<Rightarrow>
          (case assert_weekdays converted of
             Inl e \<Rightarrow> Inl e
           | Inr ms \<Rightarrow>
               Inr \<lparr> is_active = active, is_action_turn_on = turn_on,
                      repeat_on_weekdays = ms, year = y, month = mo, day = d,
                      hour = h, minute = mi \<rparr>))"


section \<open>A stand-in codec and library\<close>

text \<open>
  To run the driver on concrete inputs the parameters need values. The frames of
  this stand-in are a tag byte, one argument byte, payload bytes and the two
  final bytes; they are not the frames of the device.
\<close>

definition example_scheduler :: Scheduler where
  "example_scheduler =
     \<lparr> is_active = True, is_action_turn_on = False, repeat_on_weekdays = [MONDAY],
       year = 20, month = 1, day = 1, hour = 6, minute = 30 \<rparr>"

definition example_entry :: "byte \<Rightarrow> SchedulerEntry" where
  "example_entry b = \<lparr> slot_id = uint b, scheduler = example_scheduler \<rparr>"

definition example_encode :: "command \<Rightarrow> error + byte list" where
  "example_encode cmd = (case cmd of
      RequestSchedulerCommand page_number \<Rightarrow> Inr [0x14, word_of_int page_number, 0xFF, 0xFF]
    | other \<Rightarrow> Inr [0x00, 0x00, 0xFF, 0xFF])"

definition example_parse :: "byte list \<Rightarrow> error + notification" where
  "example_parse frame = (case frame of
      tag # b # payload \<Rightarrow>
        if tag = 1 then Inr (confirmation AuthorizationNotification (b \<noteq> 0))
        else if tag = 2 then Inr (confirmation PowerSwitchNotification (b \<noteq> 0))
        else if tag = 3 then Inr (confirmation PowerLimitSetNotification (b \<noteq> 0))
        else if tag = 4 then Inr (confirmation PricesSetNotification (b \<noteq> 0))
        else if tag = 5 then Inr (confirmation ReducedPeriodSetNotification (b \<noteq> 0))
        else if tag = 6 then Inr (confirmation TimerSetNotification (b \<noteq> 0))
        else if tag = 7
          then Inr (scheduler_requested (uint b) (map example_entry (butlast (butlast payload))))
        else Inl (Exception ''unknown notification'')
    | short \<Rightarrow> Inl (Exception ''unknown notification''))"

definition example_env :: env where
  "example_env =
     \<lparr> encode = example_encode,
       parse = example_parse,
       py_int = (\<lambda>v. case v of PyInt i \<Rightarrow> Inr i | other \<Rightarrow> Inl (ValueError ''invalid literal'')),
       time_fromisoformat = (\<lambda>t. Inr (6, 0, 0)),
       now_plus = (\<lambda>h m sec. Inr \<lparr> dt_year = 2026, dt_month = 11, dt_day = 3,
                                     dt_hour = h, dt_minute = m, dt_second = sec \<rparr>),
       datetime_new = (\<lambda>y mo d h m sec. Inr \<lparr> dt_year = y, dt_month = mo, dt_day = d,
                                               dt_hour = h, dt_minute = m, dt_second = sec \<rparr>) \<rparr>"

text \<open>A session that has received nothing yet, with the fragments the
  peripheral is going to deliver.\<close>

definition example_session :: "byte list option list \<Rightarrow> SEM6000" where
  "example_session evs =
     \<lparr> pin = ''0000'', delegate = \<lparr> raw_notifications = [] \<rparr>,
       peripheral = evs, written = [] \<rparr>"

section \<open>The frame buffer of the delegate\<close>

lemma last_two_append: "last_two (pre @ [x, y]) = [x, y]"
  by (simp add: last_two_def)

lemma last_two_eq_iff:
  assumes "2 \<le> length b"
  shows "(last_two b = [x, y]) = (\<exists>pre. b = pre @ [x, y])"
proof
  assume "last_two b = [x, y]"
  then have "take (length b - 2) b @ [x, y] = b"
    unfolding last_two_def by (metis append_take_drop_id)
  then show "\<exists>pre. b = pre @ [x, y]" by metis
next
  assume "\<exists>pre. b = pre @ [x, y]"
  then show "last_two b = [x, y]" by (auto simp: last_two_append)
qed

text \<open>
  C3. \<open>has_final_raw_notification\<close> is true exactly when at least one fragment
  has been received and the fragment received last ends in the two bytes
  \<open>0xFF 0xFF\<close>. So it is false on the empty buffer, and false after a fragment of
  fewer than two bytes has been received, whatever the buffer held before.
\<close>

theorem has_final_raw_notification_iff:
  "(has_final_raw_notification d \<longleftrightarrow>
      raw_notifications d \<noteq> [] \<and>
      (\<exists>pre. last (raw_notifications d) = pre @ [0xFF, 0xFF]))
   \<and> \<not> has_final_raw_notification \<lparr> raw_notifications = [] \<rparr>
   \<and> (length fragment < 2 \<longrightarrow>
        \<not> has_final_raw_notification (handleNotification fragment d))"
proof (intro conjI impI)
  show "has_final_raw_notification d \<longleftrightarrow>
      raw_notifications d \<noteq> [] \<and>
      (\<exists>pre. last (raw_notifications d) = pre @ [0xFF, 0xFF])"
  proof (cases "raw_notifications d = []")
    case True
    then show ?thesis by (simp add: has_final_raw_notification_def)
  next
    case False
    show ?thesis
    proof (cases "length (last (raw_notifications d)) < 2")
      case True
      then have "\<not> (\<exists>pre. last (raw_notifications d) = pre @ [0xFF, 0xFF])"
        by auto
      with True False show ?thesis
        by (simp add: has_final_raw_notification_def)
    next
      case long: False
      then have "2 \<le> length (last (raw_notifications d))" by simp
      from last_two_eq_iff [OF this] False long show ?thesis
        by (simp add: has_final_raw_notification_def Let_def)
    qed
  qed
next
  show "\<not> has_final_raw_notification \<lparr> raw_notifications = [] \<rparr>"
    by (simp add: has_final_raw_notification_def)
next
  assume "length fragment < 2"
  then show "\<not> has_final_raw_notification (handleNotification fragment d)"
    by (simp add: has_final_raw_notification_def handleNotification_def)
qed

theorem has_final_raw_notification_iff_witness:
  "has_final_raw_notification \<lparr> raw_notifications = [[0x0F, 0x04], [0x17, 0xFF, 0xFF]] \<rparr>
   \<and> length [0xFF :: byte] < 2
   \<and> \<not> has_final_raw_notification
          (handleNotification [0xFF] \<lparr> raw_notifications = [[0x0F, 0xFF]] \<rparr>)"
proof -
  have short: "length [0xFF :: byte] < 2" by simp
  have "has_final_raw_notification \<lparr> raw_notifications = [[0x0F, 0x04], [0x17, 0xFF, 0xFF]] \<rparr>"
    using has_final_raw_notification_iff
            [of "\<lparr> raw_notifications = [[0x0F, 0x04], [0x17, 0xFF, 0xFF]] \<rparr>" "[]"]
    by simp
  moreover have "\<not> has_final_raw_notification
          (handleNotification [0xFF] \<lparr> raw_notifications = [[0x0F, 0xFF]] \<rparr>)"
    using has_final_raw_notification_iff
            [of "\<lparr> raw_notifications = [[0x0F, 0xFF]] \<rparr>" "[0xFF]"] short
    by blast
  ultimately show ?thesis using short by blast
qed

text \<open>
  C4. When \<open>has_final_raw_notification\<close> is false, \<open>consume_notification\<close> raises
  the exception "Incomplete notification data" (the failure the specification
  calls \<open>IncompleteFrame\<close>). When it is true and the parser accepts the
  concatenation of all buffered fragments, in the order received, the parsed
  notification is returned and the buffer is empty afterwards, so that consuming
  again raises: the frame is consumed once.
\<close>

theorem consume_notification_frame:
  "(\<not> has_final_raw_notification d \<longrightarrow>
      consume_notification ev d = (Inl (Exception ''Incomplete notification data''), d))
   \<and> (has_final_raw_notification d \<and> parse ev (concat (raw_notifications d)) = Inr n \<longrightarrow>
        consume_notification ev d = (Inr n, d\<lparr> raw_notifications := [] \<rparr>)
        \<and> fst (consume_notification ev (snd (consume_notification ev d)))
            = Inl (Exception ''Incomplete notification data''))"
  by (simp add: consume_notification_def has_final_raw_notification_def)

theorem consume_notification_frame_witness:
  "\<not> has_final_raw_notification \<lparr> raw_notifications = [[0x01, 0x01]] \<rparr>
   \<and> consume_notification example_env \<lparr> raw_notifications = [[0x01, 0x01]] \<rparr>
       = (Inl (Exception ''Incomplete notification data''), \<lparr> raw_notifications = [[0x01, 0x01]] \<rparr>)
   \<and> has_final_raw_notification \<lparr> raw_notifications = [[0x01, 0x01], [0xFF, 0xFF]] \<rparr>
   \<and> parse example_env (concat [[0x01, 0x01], [0xFF, 0xFF]])
       = Inr (confirmation AuthorizationNotification True)
   \<and> consume_notification example_env \<lparr> raw_notifications = [[0x01, 0x01], [0xFF, 0xFF]] \<rparr>
       = (Inr (confirmation AuthorizationNotification True), \<lparr> raw_notifications = [] \<rparr>)"
proof -
  have a: "\<not> has_final_raw_notification \<lparr> raw_notifications = [[0x01, 0x01]] \<rparr>"
    by (simp add: has_final_raw_notification_def last_two_def)
  have b: "has_final_raw_notification \<lparr> raw_notifications = [[0x01, 0x01], [0xFF, 0xFF]] \<rparr>"
    by (simp add: has_final_raw_notification_def last_two_def)
  have c: "parse example_env (concat (raw_notifications \<lparr> raw_notifications = [[0x01, 0x01], [0xFF, 0xFF]] \<rparr>))
       = Inr (confirmation AuthorizationNotification True)"
    by (simp add: example_env_def example_parse_def)
  from consume_notification_frame [of "\<lparr> raw_notifications = [[0x01, 0x01]] \<rparr>" example_env] a
  have r1: "consume_notification example_env \<lparr> raw_notifications = [[0x01, 0x01]] \<rparr>
       = (Inl (Exception ''Incomplete notification data''), \<lparr> raw_notifications = [[0x01, 0x01]] \<rparr>)"
    by blast
  from consume_notification_frame
         [of "\<lparr> raw_notifications = [[0x01, 0x01], [0xFF, 0xFF]] \<rparr>" example_env
             "confirmation AuthorizationNotification True"] b c
  have r2: "consume_notification example_env \<lparr> raw_notifications = [[0x01, 0x01], [0xFF, 0xFF]] \<rparr>
       = (Inr (confirmation AuthorizationNotification True), \<lparr> raw_notifications = [] \<rparr>)"
    by simp
  from a b c r1 r2 show ?thesis by simp
qed



section \<open>Operations of the driver\<close>

text \<open>
  C5. When the notification decoded in an \<open>authorize\<close> exchange is an
  authorization confirmation with \<open>was_successful\<close> false, \<open>authorize\<close> raises
  the exception "Authentication failed" (the failure the specification calls
  \<open>OperationFailed("authorize")\<close>) and returns nothing. Whatever \<open>authorize\<close>
  returns is an authorization notification whose \<open>was_successful\<close> is true.
\<close>

theorem authorize_failure_raises:
  "(exchange ev (AuthorizeCommand (pin s)) s
        = (Inr (confirmation AuthorizationNotification False), s') \<longrightarrow>
      authorize ev s = (Inl (Exception ''Authentication failed''), s'))
   \<and> (authorize ev s = (Inr n, s'') \<longrightarrow>
        isinstance n AuthorizationNotification
        \<and> (\<exists>v. getattr n ''was_successful'' = Inr v \<and> truthy v)
        \<and> (\<forall>c b. n = confirmation c b \<longrightarrow> c = AuthorizationNotification \<and> b))"
proof (intro conjI impI)
  assume "exchange ev (AuthorizeCommand (pin s)) s
            = (Inr (confirmation AuthorizationNotification False), s')"
  then show "authorize ev s = (Inl (Exception ''Authentication failed''), s')"
    by (simp add: authorize_def isinstance_def getattr_def confirmation_def)
next
  assume r: "authorize ev s = (Inr n, s'')"
  then show "isinstance n AuthorizationNotification"
    by (auto simp: authorize_def split: prod.splits sum.splits if_splits)
  from r show v: "\<exists>v. getattr n ''was_successful'' = Inr v \<and> truthy v"
    by (auto simp: authorize_def split: prod.splits sum.splits if_splits)
  from r have c: "cls n = AuthorizationNotification"
    by (auto simp: authorize_def isinstance_def split: prod.splits sum.splits if_splits)
  show "\<forall>c b. n = confirmation c b \<longrightarrow> c = AuthorizationNotification \<and> b"
    using v c by (auto simp: confirmation_def getattr_def)
qed

theorem authorize_failure_raises_witness:
  "exchange example_env (AuthorizeCommand (pin (example_session [Some [1, 0, 0xFF, 0xFF]])))
       (example_session [Some [1, 0, 0xFF, 0xFF]])
     = (Inr (confirmation AuthorizationNotification False),
        \<lparr> pin = ''0000'', delegate = \<lparr> raw_notifications = [] \<rparr>, peripheral = [],
          written = [[0x00, 0x00, 0xFF, 0xFF]] \<rparr>)
   \<and> authorize example_env (example_session [Some [1, 0, 0xFF, 0xFF]])
     = (Inl (Exception ''Authentication failed''),
        \<lparr> pin = ''0000'', delegate = \<lparr> raw_notifications = [] \<rparr>, peripheral = [],
          written = [[0x00, 0x00, 0xFF, 0xFF]] \<rparr>)
   \<and> authorize example_env (example_session [Some [1, 1], Some [0xFF, 0xFF]])
     = (Inr (confirmation AuthorizationNotification True),
        \<lparr> pin = ''0000'', delegate = \<lparr> raw_notifications = [] \<rparr>, peripheral = [],
          written = [[0x00, 0x00, 0xFF, 0xFF]] \<rparr>)
   \<and> isinstance (confirmation AuthorizationNotification True) AuthorizationNotification
   \<and> (\<exists>v. getattr (confirmation AuthorizationNotification True) ''was_successful'' = Inr v
           \<and> truthy v)"
proof -
  let ?s = "example_session [Some [1, 0, 0xFF, 0xFF]]"
  let ?t = "example_session [Some [1, 1], Some [0xFF, 0xFF]]"
  let ?r = "\<lparr> pin = ''0000'', delegate = \<lparr> raw_notifications = [] \<rparr>, peripheral = [],
          written = [[0x00, 0x00, 0xFF, 0xFF :: byte]] \<rparr>"
  have x: "exchange example_env (AuthorizeCommand (pin ?s)) ?s
             = (Inr (confirmation AuthorizationNotification False), ?r)"
    by code_simp
  have y: "authorize example_env ?t = (Inr (confirmation AuthorizationNotification True), ?r)"
    by code_simp
  from authorize_failure_raises [of example_env ?s ?r] x
  have a: "authorize example_env ?s = (Inl (Exception ''Authentication failed''), ?r)"
    by blast
  from authorize_failure_raises
         [of example_env ?t _ "confirmation AuthorizationNotification True" ?r] y
  have b: "isinstance (confirmation AuthorizationNotification True) AuthorizationNotification
       \<and> (\<exists>v. getattr (confirmation AuthorizationNotification True) ''was_successful'' = Inr v
           \<and> truthy v)"
    by blast
  from x y a b show ?thesis by blast
qed

text \<open>
  C6. When the notification decoded in a \<open>request_settings\<close> exchange is of any
  class other than \<open>RequestedSettingsNotification\<close>, a power switch confirmation
  for one, \<open>request_settings\<close> raises the exception "Request settings failed"
  (the failure the specification calls \<open>UnexpectedNotification\<close>) instead of
  returning that notification.
\<close>

theorem request_settings_rejects_other_variants:
  "exchange ev RequestSettingsCommand s = (Inr n, s')
   \<Longrightarrow> \<not> isinstance n RequestedSettingsNotification
   \<Longrightarrow> request_settings ev s = (Inl (Exception ''Request settings failed''), s')"
  by (simp add: request_settings_def)

theorem request_settings_rejects_other_variants_witness:
  "exchange example_env RequestSettingsCommand (example_session [Some [2, 1, 0xFF, 0xFF]])
     = (Inr (confirmation PowerSwitchNotification True),
        \<lparr> pin = ''0000'', delegate = \<lparr> raw_notifications = [] \<rparr>, peripheral = [],
          written = [[0x00, 0x00, 0xFF, 0xFF]] \<rparr>)
   \<and> \<not> isinstance (confirmation PowerSwitchNotification True) RequestedSettingsNotification
   \<and> request_settings example_env (example_session [Some [2, 1, 0xFF, 0xFF]])
     = (Inl (Exception ''Request settings failed''),
        \<lparr> pin = ''0000'', delegate = \<lparr> raw_notifications = [] \<rparr>, peripheral = [],
          written = [[0x00, 0x00, 0xFF, 0xFF]] \<rparr>)"
proof -
  let ?s = "example_session [Some [2, 1, 0xFF, 0xFF]]"
  let ?r = "\<lparr> pin = ''0000'', delegate = \<lparr> raw_notifications = [] \<rparr>, peripheral = [],
          written = [[0x00, 0x00, 0xFF, 0xFF :: byte]] \<rparr>"
  have x: "exchange example_env RequestSettingsCommand ?s
             = (Inr (confirmation PowerSwitchNotification True), ?r)"
    by code_simp
  have i: "\<not> isinstance (confirmation PowerSwitchNotification True) RequestedSettingsNotification"
    by (simp add: isinstance_def confirmation_def)
  from request_settings_rejects_other_variants [OF x i] x i show ?thesis by blast
qed

text \<open>
  C7. For \<open>set_power_limit\<close>, \<open>set_prices\<close>, \<open>set_reduced_period\<close> and
  \<open>set_timer\<close> the class of the decoded notification decides alone: once the
  exchange has produced a notification, the operation returns it when it is of
  the expected confirmation class, whatever its \<open>was_successful\<close>, and raises
  exactly when it is of another class.
\<close>

theorem class_only_operations:
  "(py_int ev w = Inr k
      \<and> exchange ev (SetPowerLimitCommand k) s1 = (Inr n1, s1') \<longrightarrow>
      set_power_limit ev w s1 =
        (if isinstance n1 PowerLimitSetNotification then (Inr n1, s1')
         else (Inl (Exception ''Set power limit failed''), s1')))
   \<and> (py_int ev np = Inr a \<and> py_int ev rp = Inr b
      \<and> exchange ev (SetPricesCommand a b) s2 = (Inr n2, s2') \<longrightarrow>
      set_prices ev np rp s2 =
        (if isinstance n2 PricesSetNotification then (Inr n2, s2')
         else (Inl (Exception ''Set prices failed''), s2')))
   \<and> (time_fromisoformat ev start_iso = Inr (sh, sm, ss)
      \<and> time_fromisoformat ev end_iso = Inr (eh, em, es)
      \<and> exchange ev (SetReducedPeriodCommand (parse_boolean act) (sh * 60 + sm) (eh * 60 + em)) s3
          = (Inr n3, s3') \<longrightarrow>
      set_reduced_period ev act start_iso end_iso s3 =
        (if isinstance n3 ReducedPeriodSetNotification then (Inr n3, s3')
         else (Inl (Exception ''Set reduced period failed''), s3')))
   \<and> (time_fromisoformat ev delay_iso = Inr (h, m, sec)
      \<and> now_plus ev h m sec = Inr dt0
      \<and> datetime_new ev (dt_year dt0 mod 100) (dt_month dt0) (dt_day dt0)
                          (dt_hour dt0) (dt_minute dt0) (dt_second dt0) = Inr dt
      \<and> exchange ev (SetTimerCommand (parse_boolean rst) (parse_boolean turn_on)
                        (dt_second dt) (dt_minute dt) (dt_hour dt)
                        (dt_day dt) (dt_month dt) (dt_year dt)) s4
          = (Inr n4, s4') \<longrightarrow>
      set_timer ev rst turn_on delay_iso s4 =
        (if isinstance n4 TimerSetNotification then (Inr n4, s4')
         else (Inl (Exception ''Set timer failed''), s4')))"
proof (intro conjI impI)
  assume "py_int ev w = Inr k \<and> exchange ev (SetPowerLimitCommand k) s1 = (Inr n1, s1')"
  then show "set_power_limit ev w s1 =
        (if isinstance n1 PowerLimitSetNotification then (Inr n1, s1')
         else (Inl (Exception ''Set power limit failed''), s1'))"
    by (simp add: set_power_limit_def)
next
  assume "py_int ev np = Inr a \<and> py_int ev rp = Inr b
      \<and> exchange ev (SetPricesCommand a b) s2 = (Inr n2, s2')"
  then show "set_prices ev np rp s2 =
        (if isinstance n2 PricesSetNotification then (Inr n2, s2')
         else (Inl (Exception ''Set prices failed''), s2'))"
    by (simp add: set_prices_def)
next
  assume "time_fromisoformat ev start_iso = Inr (sh, sm, ss)
      \<and> time_fromisoformat ev end_iso = Inr (eh, em, es)
      \<and> exchange ev (SetReducedPeriodCommand (parse_boolean act) (sh * 60 + sm) (eh * 60 + em)) s3
          = (Inr n3, s3')"
  then show "set_reduced_period ev act start_iso end_iso s3 =
        (if isinstance n3 ReducedPeriodSetNotification then (Inr n3, s3')
         else (Inl (Exception ''Set reduced period failed''), s3'))"
    by (simp add: set_reduced_period_def)
next
  assume "time_fromisoformat ev delay_iso = Inr (h, m, sec)
      \<and> now_plus ev h m sec = Inr dt0
      \<and> datetime_new ev (dt_year dt0 mod 100) (dt_month dt0) (dt_day dt0)
                          (dt_hour dt0) (dt_minute dt0) (dt_second dt0) = Inr dt
      \<and> exchange ev (SetTimerCommand (parse_boolean rst) (parse_boolean turn_on)
                        (dt_second dt) (dt_minute dt) (dt_hour dt)
                        (dt_day dt) (dt_month dt) (dt_year dt)) s4
          = (Inr n4, s4')"
  then show "set_timer ev rst turn_on delay_iso s4 =
        (if isinstance n4 TimerSetNotification then (Inr n4, s4')
         else (Inl (Exception ''Set timer failed''), s4'))"
    by (simp add: set_timer_def)
qed

theorem class_only_operations_witness:
  "set_power_limit example_env (PyInt 500) (example_session [Some [3, 0, 0xFF, 0xFF]])
     = (Inr (confirmation PowerLimitSetNotification False),
        \<lparr> pin = ''0000'', delegate = \<lparr> raw_notifications = [] \<rparr>, peripheral = [],
          written = [[0x00, 0x00, 0xFF, 0xFF]] \<rparr>)
   \<and> set_prices example_env (PyInt 30) (PyInt 20) (example_session [Some [4, 0, 0xFF, 0xFF]])
     = (Inr (confirmation PricesSetNotification False),
        \<lparr> pin = ''0000'', delegate = \<lparr> raw_notifications = [] \<rparr>, peripheral = [],
          written = [[0x00, 0x00, 0xFF, 0xFF]] \<rparr>)
   \<and> set_reduced_period example_env (PyStr ''on'') ''06:00'' ''06:00''
         (example_session [Some [5, 0, 0xFF, 0xFF]])
     = (Inr (confirmation ReducedPeriodSetNotification False),
        \<lparr> pin = ''0000'', delegate = \<lparr> raw_notifications = [] \<rparr>, peripheral = [],
          written = [[0x00, 0x00, 0xFF, 0xFF]] \<rparr>)
   \<and> set_timer example_env (PyBool False) (PyStr ''on'') ''06:00''
         (example_session [Some [6, 0, 0xFF, 0xFF]])
     = (Inr (confirmation TimerSetNotification False),
        \<lparr> pin = ''0000'', delegate = \<lparr> raw_notifications = [] \<rparr>, peripheral = [],
          written = [[0x00, 0x00, 0xFF, 0xFF]] \<rparr>)
   \<and> set_timer example_env (PyBool False) (PyStr ''on'') ''06:00''
         (example_session [Some [3, 0, 0xFF, 0xFF]])
     = (Inl (Exception ''Set timer failed''),
        \<lparr> pin = ''0000'', delegate = \<lparr> raw_notifications = [] \<rparr>, peripheral = [],
          written = [[0x00, 0x00, 0xFF, 0xFF]] \<rparr>)"
proof -
  let ?r = "\<lparr> pin = ''0000'', delegate = \<lparr> raw_notifications = [] \<rparr>, peripheral = [],
          written = [[0x00, 0x00, 0xFF, 0xFF :: byte]] \<rparr>"
  let ?s1 = "example_session [Some [3, 0, 0xFF, 0xFF]]"
  let ?s2 = "example_session [Some [4, 0, 0xFF, 0xFF]]"
  let ?s3 = "example_session [Some [5, 0, 0xFF, 0xFF]]"
  let ?s4 = "example_session [Some [6, 0, 0xFF, 0xFF]]"
  let ?base = "\<lparr> dt_year = 2026, dt_month = 11, dt_day = 3,
                dt_hour = 6, dt_minute = 0, dt_second = 0 \<rparr>"
  let ?target = "\<lparr> dt_year = 26, dt_month = 11, dt_day = 3,
               dt_hour = 6, dt_minute = 0, dt_second = 0 \<rparr>"
  have i1: "py_int example_env (PyInt 500) = Inr 500"
    by (simp add: example_env_def)
  have i2: "py_int example_env (PyInt 30) = Inr 30"
    by (simp add: example_env_def)
  have i3: "py_int example_env (PyInt 20) = Inr 20"
    by (simp add: example_env_def)
  have t: "time_fromisoformat example_env ''06:00'' = Inr (6, 0, 0)"
    by (simp add: example_env_def)
  have n: "now_plus example_env 6 0 0 = Inr ?base"
    by (simp add: example_env_def)
  have d: "datetime_new example_env (dt_year ?base mod 100) (dt_month ?base) (dt_day ?base)
              (dt_hour ?base) (dt_minute ?base) (dt_second ?base) = Inr ?target"
    by (simp add: example_env_def)
  have x1: "exchange example_env (SetPowerLimitCommand 500) ?s1
              = (Inr (confirmation PowerLimitSetNotification False), ?r)"
    by code_simp
  have x2: "exchange example_env (SetPricesCommand 30 20) ?s2
              = (Inr (confirmation PricesSetNotification False), ?r)"
    by code_simp
  have x3: "exchange example_env
              (SetReducedPeriodCommand (parse_boolean (PyStr ''on'')) (6 * 60 + 0) (6 * 60 + 0)) ?s3
              = (Inr (confirmation ReducedPeriodSetNotification False), ?r)"
    by code_simp
  have x4: "exchange example_env
              (SetTimerCommand (parse_boolean (PyBool False)) (parse_boolean (PyStr ''on''))
                 (dt_second ?target) (dt_minute ?target) (dt_hour ?target)
                 (dt_day ?target) (dt_month ?target) (dt_year ?target)) ?s4
              = (Inr (confirmation TimerSetNotification False), ?r)"
    by code_simp
  have x5: "exchange example_env
              (SetTimerCommand (parse_boolean (PyBool False)) (parse_boolean (PyStr ''on''))
                 (dt_second ?target) (dt_minute ?target) (dt_hour ?target)
                 (dt_day ?target) (dt_month ?target) (dt_year ?target)) ?s1
              = (Inr (confirmation PowerLimitSetNotification False), ?r)"
    by code_simp
  have c: "isinstance (confirmation PowerLimitSetNotification False) PowerLimitSetNotification"
          "isinstance (confirmation PricesSetNotification False) PricesSetNotification"
          "isinstance (confirmation ReducedPeriodSetNotification False) ReducedPeriodSetNotification"
          "isinstance (confirmation TimerSetNotification False) TimerSetNotification"
          "\<not> isinstance (confirmation PowerLimitSetNotification False) TimerSetNotification"
    by (simp_all add: isinstance_def confirmation_def)
  note th = class_only_operations
      [where ev = example_env and w = "PyInt 500" and k = 500 and ?s1.0 = ?s1
         and ?n1.0 = "confirmation PowerLimitSetNotification False" and s1' = ?r
         and np = "PyInt 30" and rp = "PyInt 20" and a = 30 and b = 20 and ?s2.0 = ?s2
         and ?n2.0 = "confirmation PricesSetNotification False" and s2' = ?r
         and start_iso = "''06:00''" and end_iso = "''06:00''"
         and sh = 6 and sm = 0 and ss = 0 and eh = 6 and em = 0 and es = 0
         and act = "PyStr ''on''" and ?s3.0 = ?s3
         and ?n3.0 = "confirmation ReducedPeriodSetNotification False" and s3' = ?r
         and delay_iso = "''06:00''" and h = 6 and m = 0 and sec = 0
         and ?dt0.0 = ?base and dt = ?target and rst = "PyBool False" and turn_on = "PyStr ''on''"
         and s4' = ?r]
  from th [where ?s4.0 = ?s4 and ?n4.0 = "confirmation TimerSetNotification False"]
       i1 i2 i3 t n d x1 x2 x3 x4 c
  have r1: "set_power_limit example_env (PyInt 500) ?s1
              = (Inr (confirmation PowerLimitSetNotification False), ?r)"
    and r2: "set_prices example_env (PyInt 30) (PyInt 20) ?s2
              = (Inr (confirmation PricesSetNotification False), ?r)"
    and r3: "set_reduced_period example_env (PyStr ''on'') ''06:00'' ''06:00'' ?s3
              = (Inr (confirmation ReducedPeriodSetNotification False), ?r)"
    and r4: "set_timer example_env (PyBool False) (PyStr ''on'') ''06:00'' ?s4
              = (Inr (confirmation TimerSetNotification False), ?r)"
    by simp_all
  from th [where ?s4.0 = ?s1 and ?n4.0 = "confirmation PowerLimitSetNotification False"]
       t n d x5 c
  have r5: "set_timer example_env (PyBool False) (PyStr ''on'') ''06:00'' ?s1
              = (Inl (Exception ''Set timer failed''), ?r)"
    by simp
  from r1 r2 r3 r4 r5 show ?thesis by blast
qed

section \<open>Boolean arguments\<close>

lemma lower_char_idem: "lower_char (lower_char c) = lower_char c"
  by (simp add: lower_char_def Let_def)

lemma lower_idem: "lower (lower s) = lower s"
  by (simp add: lower_def lower_char_idem)

text \<open>
  C9. \<open>_parse_boolean\<close> is true exactly when the lower-cased string form of its
  argument is "true", "on" or "1". Every other argument gives false, among them
  "yes", "enabled" and the empty string; upper and lower case make no
  difference.
\<close>

theorem parse_boolean_iff:
  "(parse_boolean x \<longleftrightarrow>
      lower (py_str x) = ''true'' \<or> lower (py_str x) = ''on'' \<or> lower (py_str x) = ''1'')
   \<and> \<not> parse_boolean (PyStr ''yes'')
   \<and> \<not> parse_boolean (PyStr ''enabled'')
   \<and> \<not> parse_boolean (PyStr '''')
   \<and> parse_boolean (PyStr ''true'') \<and> parse_boolean (PyStr ''on'') \<and> parse_boolean (PyStr ''1'')
   \<and> parse_boolean (PyStr ''TRUE'') \<and> parse_boolean (PyStr ''On'')
   \<and> parse_boolean (PyBool True) \<and> parse_boolean (PyInt 1)
   \<and> parse_boolean (PyStr (lower s)) = parse_boolean (PyStr s)"
proof (intro conjI)
  show "parse_boolean x \<longleftrightarrow>
      lower (py_str x) = ''true'' \<or> lower (py_str x) = ''on'' \<or> lower (py_str x) = ''1''"
    by (simp add: parse_boolean_def)
  show "parse_boolean (PyStr (lower s)) = parse_boolean (PyStr s)"
    by (simp add: parse_boolean_def lower_idem)
qed code_simp+

section \<open>Weekdays of a Scheduler\<close>

lemma str_int_9: "str_int 9 = ''9''"
  by code_simp

lemma SchedulerWeekday_call_error:
  "SchedulerWeekday_call v = Inl e \<Longrightarrow> \<exists>msg. e = ValueError msg"
  by (auto simp: SchedulerWeekday_call_def split: if_splits)

lemma convert_weekdays_error:
  "convert_weekdays ws = Inl e \<Longrightarrow> \<exists>msg. e = ValueError msg"
proof (induction ws)
  case Nil
  then show ?case by simp
next
  case (Cons w ws)
  then show ?case
    by (auto split: option.splits sum.splits dest: SchedulerWeekday_call_error)
qed

lemma convert_weekdays_9:
  "PyInt 9 \<in> set ws \<Longrightarrow> \<exists>msg. convert_weekdays ws = Inl (ValueError msg)"
proof (induction ws)
  case Nil
  then show ?case by simp
next
  case (Cons w ws)
  show ?case
  proof (cases "w = PyInt 9")
    case True
    then show ?thesis by (simp add: SchedulerWeekday_call_def)
  next
    case False
    with Cons.prems have "PyInt 9 \<in> set ws" by simp
    from Cons.IH [OF this] obtain msg where m: "convert_weekdays ws = Inl (ValueError msg)"
      by blast
    show ?thesis
    proof (cases "as_int w")
      case None
      with m show ?thesis by simp
    next
      case (Some v)
      show ?thesis
      proof (cases "SchedulerWeekday_call v")
        case (Inl e)
        with Some SchedulerWeekday_call_error [OF Inl] show ?thesis by auto
      next
        case (Inr mem)
        with Some m show ?thesis by simp
      qed
    qed
  qed
qed

lemma SchedulerWeekday_call_range:
  "0 \<le> v \<Longrightarrow> v \<le> 6 \<Longrightarrow>
   SchedulerWeekday_call v
     = Inr ([SUNDAY, MONDAY, TUESDAY, WEDNESDAY, THURSDAY, FRIDAY, SATURDAY] ! nat v)"
proof -
  assume "0 \<le> v" "v \<le> 6"
  then have "v = 0 \<or> v = 1 \<or> v = 2 \<or> v = 3 \<or> v = 4 \<or> v = 5 \<or> v = 6" by arith
  then show ?thesis by (auto simp: SchedulerWeekday_call_def)
qed

lemma convert_weekdays_ints:
  "\<forall>v\<in>set vs. 0 \<le> v \<and> v \<le> 6 \<Longrightarrow>
   convert_weekdays (map PyInt vs)
     = Inr (map (\<lambda>v. PyWeekday ([SUNDAY, MONDAY, TUESDAY, WEDNESDAY, THURSDAY, FRIDAY, SATURDAY] ! nat v)) vs)"
  by (induction vs) (simp_all add: SchedulerWeekday_call_range)

lemma assert_weekdays_members: "assert_weekdays (map PyWeekday ms) = Inr ms"
  by (induction ms) simp_all

text \<open>
  C8. Constructing a \<open>Scheduler\<close> whose list of weekdays contains the integer 9
  fails: the enum call raises \<open>ValueError\<close> (the failure the specification calls
  \<open>ValidationError\<close>). For integers from 0 to 6 the construction succeeds and
  each integer becomes the weekday at that position of Sunday, Monday, Tuesday,
  Wednesday, Thursday, Friday, Saturday.
\<close>

theorem Scheduler_init_weekdays:
  "(PyInt 9 \<in> set weekdays \<longrightarrow>
      (\<exists>msg. Scheduler_init a t weekdays y mo d h mi = Inl (ValueError msg)))
   \<and> Scheduler_init a t [PyInt 9] y mo d h mi
       = Inl (ValueError ''9 is not a valid SchedulerWeekday'')
   \<and> ((\<forall>v\<in>set vs. 0 \<le> v \<and> v \<le> 6) \<longrightarrow>
        Scheduler_init a t (map PyInt vs) y mo d h mi
          = Inr \<lparr> is_active = a, is_action_turn_on = t,
                  repeat_on_weekdays =
                    map (\<lambda>v. [SUNDAY, MONDAY, TUESDAY, WEDNESDAY, THURSDAY, FRIDAY, SATURDAY]
                                ! nat v) vs,
                  year = y, month = mo, day = d, hour = h, minute = mi \<rparr>)"
proof (intro conjI impI)
  assume "PyInt 9 \<in> set weekdays"
  from convert_weekdays_9 [OF this]
  show "\<exists>msg. Scheduler_init a t weekdays y mo d h mi = Inl (ValueError msg)"
    by (auto simp: Scheduler_init_def)
next
  show "Scheduler_init a t [PyInt 9] y mo d h mi
       = Inl (ValueError ''9 is not a valid SchedulerWeekday'')"
    by (simp add: Scheduler_init_def SchedulerWeekday_call_def str_int_9)
next
  assume "\<forall>v\<in>set vs. 0 \<le> v \<and> v \<le> 6"
  from convert_weekdays_ints [OF this]
       assert_weekdays_members
         [of "map (\<lambda>v. [SUNDAY, MONDAY, TUESDAY, WEDNESDAY, THURSDAY, FRIDAY, SATURDAY] ! nat v) vs"]
  show "Scheduler_init a t (map PyInt vs) y mo d h mi
          = Inr \<lparr> is_active = a, is_action_turn_on = t,
                  repeat_on_weekdays =
                    map (\<lambda>v. [SUNDAY, MONDAY, TUESDAY, WEDNESDAY, THURSDAY, FRIDAY, SATURDAY]
                                ! nat v) vs,
                  year = y, month = mo, day = d, hour = h, minute = mi \<rparr>"
    by (simp add: Scheduler_init_def comp_def)
qed

theorem Scheduler_init_weekdays_witness:
  "PyInt 9 \<in> set [PyInt 1, PyInt 9]
   \<and> (\<exists>msg. Scheduler_init True False [PyInt 1, PyInt 9] 20 1 1 6 30 = Inl (ValueError msg))
   \<and> list_all (\<lambda>v. 0 \<le> v \<and> v \<le> 6) [0, 1, 2, 3, 4, 5, 6 :: int]
   \<and> Scheduler_init True False (map PyInt [0, 1, 2, 3, 4, 5, 6]) 20 1 1 6 30
       = Inr \<lparr> is_active = True, is_action_turn_on = False,
               repeat_on_weekdays =
                 [SUNDAY, MONDAY, TUESDAY, WEDNESDAY, THURSDAY, FRIDAY, SATURDAY],
               year = 20, month = 1, day = 1, hour = 6, minute = 30 \<rparr>"
proof -
  have m: "PyInt 9 \<in> set [PyInt 1, PyInt 9]" by simp
  have r: "\<forall>v\<in>set [0, 1, 2, 3, 4, 5, 6 :: int]. 0 \<le> v \<and> v \<le> 6" by simp
  from Scheduler_init_weekdays [of "[PyInt 1, PyInt 9]" True False 20 1 1 6 30] m
  have a: "\<exists>msg. Scheduler_init True False [PyInt 1, PyInt 9] 20 1 1 6 30 = Inl (ValueError msg)"
    by blast
  from Scheduler_init_weekdays [of _ True False 20 1 1 6 30 "[0, 1, 2, 3, 4, 5, 6]"] r
  have b: "Scheduler_init True False (map PyInt [0, 1, 2, 3, 4, 5, 6]) 20 1 1 6 30
       = Inr \<lparr> is_active = True, is_action_turn_on = False,
               repeat_on_weekdays =
                 [SUNDAY, MONDAY, TUESDAY, WEDNESDAY, THURSDAY, FRIDAY, SATURDAY],
               year = 20, month = 1, day = 1, hour = 6, minute = 30 \<rparr>"
    by simp
  have l: "list_all (\<lambda>v. 0 \<le> v \<and> v \<le> 6) [0, 1, 2, 3, 4, 5, 6 :: int]" by simp
  from m l a b show ?thesis by blast
qed

section \<open>Retrieving the schedulers\<close>

text \<open>
  \<open>SchedulerRequestedNotification.__init__\<close> stores the entries under the name
  \<open>scheduler_entries\<close>; the loop of \<open>request_scheduler\<close> reads the name
  \<open>schedulers\<close>. So the first pass through the loop body raises
  \<open>AttributeError\<close>, after the request for page 1 has been written and
  answered. With a count below 4 the loop body is never entered and the first
  notification is returned as it is.
\<close>

lemma getattr_schedulers_missing:
  "getattr (scheduler_requested k es) ''schedulers''
     = Inl (AttributeError ''SchedulerRequestedNotification'' ''schedulers'')"
  by (simp add: getattr_def scheduler_requested_def class_name_def)

lemma extend_schedulers_raises:
  "extend_schedulers (scheduler_requested k es) further
     = Inl (AttributeError ''SchedulerRequestedNotification'' ''schedulers'')"
  by (simp add: extend_schedulers_def getattr_schedulers_missing)

lemma request_scheduler_below_four:
  assumes "exchange ev (RequestSchedulerCommand 0) s = (Inr (scheduler_requested k es), s1)"
    and "k < 4"
  shows "request_scheduler ev s = (Inr (scheduler_requested k es), s1)"
proof -
  from \<open>k < 4\<close> have "k div 4 < 1" by simp
  then have "[1..k div 4] = []" by simp
  with assms(1) show ?thesis
    by (simp add: request_scheduler_def isinstance_def getattr_def floordiv4_def
          scheduler_requested_def)
qed

lemma request_scheduler_from_four:
  assumes "exchange ev (RequestSchedulerCommand 0) s = (Inr (scheduler_requested k es), s1)"
    and "4 \<le> k"
    and "exchange ev (RequestSchedulerCommand 1) s1 = (Inr (scheduler_requested k' es'), s2)"
  shows "request_scheduler ev s
           = (Inl (AttributeError ''SchedulerRequestedNotification'' ''schedulers''), s2)"
proof -
  from \<open>4 \<le> k\<close> have "1 \<le> k div 4" by simp
  then have pages: "[1..k div 4] = 1 # [2..k div 4]" by (simp add: upto_rec1)
  have first: "isinstance (scheduler_requested k es) SchedulerRequestedNotification"
    and further: "isinstance (scheduler_requested k' es') SchedulerRequestedNotification"
    and count: "getattr (scheduler_requested k es) ''number_of_schedulers'' = Inr (AInt k)"
    by (simp_all add: isinstance_def getattr_def scheduler_requested_def)
  have "request_further_pages ev (1 # [2..k div 4]) (scheduler_requested k es) s1
          = (Inl (AttributeError ''SchedulerRequestedNotification'' ''schedulers''), s2)"
    using assms(3) further by (simp add: extend_schedulers_raises)
  with assms(1) first count pages show ?thesis
    by (simp add: request_scheduler_def floordiv4_def)
qed

text \<open>
  C1. The property: for a first page that reports the count \<open>N\<close>,
  \<open>request_scheduler\<close> issues \<open>1 + N div 4\<close> page requests, page 0 and then
  pages 1 to \<open>N div 4\<close>. The driver run on a first page reporting 8, with every
  page well formed: it writes the requests for page 0 and page 1 and raises
  \<open>AttributeError\<close>; the request for page 2 is never written and the third
  frame is left with the peripheral. Two requests, where the property has three.
\<close>

theorem request_scheduler_stops_after_page_1:
  "request_scheduler example_env
     (example_session [Some [7, 8, 1, 2, 3, 4, 0xFF, 0xFF], Some [7, 8, 5, 6, 7, 8, 0xFF, 0xFF],
                       Some [7, 8, 0xFF, 0xFF]])
   = (Inl (AttributeError ''SchedulerRequestedNotification'' ''schedulers''),
      \<lparr> pin = ''0000'', delegate = \<lparr> raw_notifications = [] \<rparr>,
        peripheral = [Some [7, 8, 0xFF, 0xFF]],
        written = [[0x14, 0, 0xFF, 0xFF], [0x14, 1, 0xFF, 0xFF]] \<rparr>)"
  by code_simp

text \<open>
  C2. The property: for well-formed pages the value returned by
  \<open>request_scheduler\<close> holds the entries of the first page followed by those of
  each later page, in page order, and the count of the first page. The driver
  run on a first page reporting 5 with four entries and a second page with the
  fifth: nothing is returned, the call raises \<open>AttributeError\<close>.
\<close>

theorem request_scheduler_returns_no_aggregate:
  "request_scheduler example_env
     (example_session [Some [7, 5, 1, 2, 3, 4, 0xFF, 0xFF], Some [7, 5, 5, 0xFF, 0xFF]])
   = (Inl (AttributeError ''SchedulerRequestedNotification'' ''schedulers''),
      \<lparr> pin = ''0000'', delegate = \<lparr> raw_notifications = [] \<rparr>,
        peripheral = [],
        written = [[0x14, 0, 0xFF, 0xFF], [0x14, 1, 0xFF, 0xFF]] \<rparr>)"
  by code_simp

lemma request_scheduler_single_page:
  "request_scheduler example_env (example_session [Some [7, 3, 1, 2, 3, 0xFF, 0xFF]])
   = (Inr (scheduler_requested 3 [example_entry 1, example_entry 2, example_entry 3]),
      \<lparr> pin = ''0000'', delegate = \<lparr> raw_notifications = [] \<rparr>,
        peripheral = [], written = [[0x14, 0, 0xFF, 0xFF]] \<rparr>)"
  by code_simp

end
